theory Spec2Isabelle
  imports Main "HOL-Library.Sublist" "HOL-Library.Multiset" "HOL-Library.AList"
begin

section \<open>Python text operations used by vm_manager.py\<close>

text \<open>
  A Python \<open>str\<close> is modelled as a \<open>string\<close>; a \<open>char\<close> stands for a code point below
  256, so each accented letter of the program's messages is a single character.  The
  functions below follow the behaviour of the built-in methods on such text.
\<close>

definition LF :: char where "LF = CHR 0x0A"
definition CR :: char where "CR = CHR 0x0D"

definition isspace :: "char \<Rightarrow> bool" where
  \<comment> \<open>\<open>str.isspace\<close> on one character: TAB, LF, VT, FF, CR, FS, GS, RS, US, space, NEL, NBSP.\<close>
  "isspace c = (let n = (of_char c :: nat) in
      (9 \<le> n \<and> n \<le> 13) \<or> (28 \<le> n \<and> n \<le> 32) \<or> n = 133 \<or> n = 160)"

definition is_linebreak :: "char \<Rightarrow> bool" where
  \<comment> \<open>the line boundaries of \<open>str.splitlines\<close>: LF, VT, FF, CR, FS, GS, RS, NEL.\<close>
  "is_linebreak c = (let n = (of_char c :: nat) in
      (10 \<le> n \<and> n \<le> 13) \<or> (28 \<le> n \<and> n \<le> 30) \<or> n = 133)"

definition strip :: "string \<Rightarrow> string" where
  "strip s = rev (dropWhile isspace (rev (dropWhile isspace s)))"

fun splitlines_acc :: "string \<Rightarrow> string \<Rightarrow> string list" where
  "splitlines_acc acc [] = (if acc = [] then [] else [rev acc])"
| "splitlines_acc acc [c] =
     (if is_linebreak c then [rev acc] else [rev (c # acc)])"
| "splitlines_acc acc (c # d # cs) =
     (if c = CR \<and> d = LF then rev acc # splitlines_acc [] cs
      else if is_linebreak c then rev acc # splitlines_acc [] (d # cs)
      else splitlines_acc (c # acc) (d # cs))"

definition splitlines :: "string \<Rightarrow> string list" where
  "splitlines s = splitlines_acc [] s"

fun startswith :: "string \<Rightarrow> string \<Rightarrow> bool" where
  \<comment> \<open>\<open>s.startswith(p)\<close>, written \<open>startswith s p\<close>.\<close>
  "startswith s [] = True"
| "startswith [] (p # ps) = False"
| "startswith (c # cs) (p # ps) = (c = p \<and> startswith cs ps)"

fun str_in :: "string \<Rightarrow> string \<Rightarrow> bool" where
  \<comment> \<open>\<open>p in s\<close>, written \<open>str_in p s\<close>.\<close>
  "str_in p [] = (p = [])"
| "str_in p (c # cs) = (startswith (c # cs) p \<or> str_in p cs)"




definition lower_char :: "char \<Rightarrow> char" where
  "lower_char c = (let n = (of_char c :: nat) in
      if (65 \<le> n \<and> n \<le> 90) \<or> (192 \<le> n \<and> n \<le> 222 \<and> n \<noteq> 215)
      then char_of (n + 32) else c)"

definition lower :: "string \<Rightarrow> string" where
  "lower s = map lower_char s"

fun join :: "string \<Rightarrow> string list \<Rightarrow> string" where
  \<comment> \<open>\<open>sep.join(xs)\<close>.\<close>
  "join sep [] = []"
| "join sep [x] = x"
| "join sep (x # y # ys) = x @ sep @ join sep (y # ys)"

fun digits_acc :: "nat \<Rightarrow> nat \<Rightarrow> string \<Rightarrow> string" where
  \<comment> \<open>decimal digits of a natural number; the first argument bounds the number of digits.\<close>
  "digits_acc 0 n acc = acc"
| "digits_acc (Suc k) n acc =
     (if n < 10 then char_of (48 + n) # acc
      else digits_acc k (n div 10) (char_of (48 + n mod 10) # acc))"

definition str_nat :: "nat \<Rightarrow> string" where
  "str_nat n = digits_acc (Suc n) n []"

definition str_int :: "int \<Rightarrow> string" where
  \<comment> \<open>\<open>str(i)\<close> and \<open>f"{i}"\<close> for an \<open>int\<close>.\<close>
  "str_int i = (if i < 0 then CHR ''-'' # str_nat (nat (- i)) else str_nat (nat i))"


definition isdigit :: "char \<Rightarrow> bool" where
  \<comment> \<open>the characters \<open>0\<close> to \<open>9\<close>, of which \<open>str_nat\<close> builds its result.\<close>
  "isdigit c = (48 \<le> (of_char c :: nat) \<and> (of_char c :: nat) \<le> 57)"

section \<open>Errors, external processes and the state of the host\<close>

datatype error =
    CommandError string
  | OtherError string

record completed =
  returncode :: int
  proc_stdout :: string
  proc_stderr :: string

record CommandResult =
  stdout :: string
  stderr :: string

text \<open>
  The file system: the regular files with their contents and the directories, by path.
  The order of \<open>files\<close> stands for the order in which the operating system lists a
  directory.  Paths are taken as written (no symbolic links, no \<open>..\<close>).  The operating
  system carries out what it is asked for; only reading a file that does not exist fails.
\<close>

record fsys =
  files :: "(string \<times> string) list"
  dirs :: "string list"

text \<open>
  The external programs (\<open>virsh\<close>, \<open>qemu-img\<close>) are not part of the repository.  A
  \<open>tool\<close> gives, for the commands issued so far, the file system and the new command line,
  the completed process and the file system the process leaves behind; every statement
  below holds for every such function.
\<close>

type_synonym tool = "string list list \<Rightarrow> fsys \<Rightarrow> string list \<Rightarrow> completed \<times> fsys"

datatype json =
    JNull
  | JBool bool
  | JInt int
  | JFloat "int option"
  | JStr string
  | JList "json list"
  | JObject "(string \<times> json) list"

text \<open>
  What the program takes from the host and from the standard library, beside the external
  programs: the directory \<open>APP_DIR\<close> under the home of the user, the name
  \<open>TemporaryDirectory()\<close> picks, \<open>Path.resolve\<close>, the readings of
  \<open>CURRENT_TIMESTAMP\<close> in the order they are taken, \<open>json.loads\<close> (\<open>None\<close> when it raises),
  \<open>int\<close> on a \<open>str\<close> (\<open>None\<close> when it raises), the decoding of a tar archive into its
  members and the encoding of members as an archive, \<open>uuid.uuid4()\<close> and
  \<open>secrets.token_hex(3)\<close>.  A \<open>JFloat\<close> carries the value \<open>int\<close> gives for the number
  (\<open>None\<close> when \<open>int\<close> raises).
\<close>

record env =
  tool :: tool
  app_dir :: string
  mkdtemp :: "fsys \<Rightarrow> string"
  resolve :: "fsys \<Rightarrow> string \<Rightarrow> string"
  clock :: "nat \<Rightarrow> nat"
  json_loads :: "string \<Rightarrow> json option"
  int_of_str :: "string \<Rightarrow> int option"
  untar :: "string \<Rightarrow> (string \<times> string) list option"
  mktar :: "(string \<times> string) list \<Rightarrow> string"
  uuid4 :: "fsys \<Rightarrow> string"
  token_hex3 :: "fsys \<Rightarrow> string"

record world =
  fs :: fsys
  rows :: "(string \<times> string \<times> nat) list"
  trace :: "string list list"
  ticks :: nat
  printed :: "string list"

definition path_join :: "string \<Rightarrow> string \<Rightarrow> string" where
  \<comment> \<open>\<open>d / n\<close>: an empty \<open>n\<close> adds nothing and an absolute \<open>n\<close> replaces \<open>d\<close>.\<close>
  "path_join d n =
     (if n = [] then d
      else if startswith n ''/'' then n
      else if d \<noteq> [] \<and> last d = CHR ''/'' then d @ n
      else d @ ''/'' @ n)"

definition path_parent :: "string \<Rightarrow> string" where
  \<comment> \<open>\<open>p.parent\<close>.\<close>
  "path_parent p =
     (let r = dropWhile (\<lambda>c. c \<noteq> CHR ''/'') (rev p)
      in if r = [] then ''.'' else if tl r = [] then ''/'' else rev (tl r))"

fun parents_upto :: "nat \<Rightarrow> string \<Rightarrow> string list" where
  "parents_upto 0 p = []"
| "parents_upto (Suc k) p =
     (let q = path_parent p in if q = p then [] else q # parents_upto k q)"

definition parents :: "string \<Rightarrow> string list" where
  \<comment> \<open>\<open>p.parents\<close>; a path has fewer ancestors than characters.\<close>
  "parents p = parents_upto (length p) p"

definition path_exists :: "fsys \<Rightarrow> string \<Rightarrow> bool" where
  "path_exists f p = (map_of (files f) p \<noteq> None \<or> p \<in> set (dirs f))"

definition read_text :: "fsys \<Rightarrow> string \<Rightarrow> error + string" where
  "read_text f p =
     (case map_of (files f) p of
        None \<Rightarrow> Inl (OtherError ''FileNotFoundError'')
      | Some c \<Rightarrow> Inr c)"

definition write_text :: "string \<Rightarrow> string \<Rightarrow> fsys \<Rightarrow> fsys" where
  "write_text p c f = f\<lparr>files := AList.update p c (files f)\<rparr>"

definition append_text :: "string \<Rightarrow> string \<Rightarrow> fsys \<Rightarrow> fsys" where
  \<comment> \<open>\<open>open("a")\<close> and \<open>write\<close>: the file is created when it does not exist.\<close>
  "append_text p c f =
     f\<lparr>files := AList.update p ((case map_of (files f) p of None \<Rightarrow> [] | Some old \<Rightarrow> old) @ c) (files f)\<rparr>"

definition mkdir_parents :: "string \<Rightarrow> fsys \<Rightarrow> fsys" where
  \<comment> \<open>\<open>p.mkdir(parents=True, exist_ok=True)\<close>.\<close>
  "mkdir_parents p f = f\<lparr>dirs := fold List.insert (p # parents p) (dirs f)\<rparr>"

definition rmtree :: "string \<Rightarrow> fsys \<Rightarrow> fsys" where
  \<comment> \<open>leaving a \<open>TemporaryDirectory\<close>: the directory goes with all it holds.\<close>
  "rmtree d f =
     f\<lparr>files := filter (\<lambda>(p, c). \<not> startswith p (d @ ''/'')) (files f),
       dirs := filter (\<lambda>q. q \<noteq> d \<and> \<not> startswith q (d @ ''/'')) (dirs f)\<rparr>"

section \<open>PathStore\<close>

text \<open>
  The table \<open>paths\<close> is the list of its rows \<open>(key, value, updated_at)\<close> in rowid order;
  \<open>key\<close> is the primary key.  \<open>updated_at\<close> is the reading of \<open>CURRENT_TIMESTAMP\<close>, a
  number of seconds.
\<close>

fun upsert :: "string \<Rightarrow> string \<Rightarrow> nat \<Rightarrow> (string \<times> string \<times> nat) list \<Rightarrow> (string \<times> string \<times> nat) list" where
  "upsert k v t [] = [(k, v, t)]"
| "upsert k v t ((k', v', t') # rs) =
     (if k' = k then (k, v, t) # rs else (k', v', t') # upsert k v t rs)"

definition PathStore_set :: "nat \<Rightarrow> string \<Rightarrow> string \<Rightarrow> (string \<times> string \<times> nat) list \<Rightarrow> (string \<times> string \<times> nat) list" where
  \<comment> \<open>\<open>INSERT ... ON CONFLICT(key) DO UPDATE SET value, updated_at\<close> at clock reading \<open>now\<close>.\<close>
  "PathStore_set now key val tbl = upsert key val now tbl"

fun PathStore_get :: "string \<Rightarrow> (string \<times> string \<times> nat) list \<Rightarrow> string option" where
  \<comment> \<open>\<open>SELECT value FROM paths WHERE key=?\<close>, \<open>fetchone\<close>.\<close>
  "PathStore_get key [] = None"
| "PathStore_get key ((k, v, t) # rs) = (if k = key then Some v else PathStore_get key rs)"



section \<open>VMManager\<close>

definition store_set :: "env \<Rightarrow> string \<Rightarrow> string \<Rightarrow> world \<Rightarrow> world" where
  \<comment> \<open>\<open>self.path_store.set(key, value)\<close> at the next reading of the clock.\<close>
  "store_set e key val w =
     w\<lparr>rows := PathStore_set (clock e (ticks w)) key val (rows w), ticks := Suc (ticks w)\<rparr>"

definition subprocess_run :: "env \<Rightarrow> string list \<Rightarrow> world \<Rightarrow> completed \<times> world" where
  \<comment> \<open>\<open>subprocess.run(command, capture_output=True, text=True, check=False)\<close>.\<close>
  "subprocess_run e command w =
     (let (proc, f) = tool e (trace w) (fs w) command
      in (proc, w\<lparr>fs := f, trace := trace w @ [command]\<rparr>))"

definition run_message :: "string list \<Rightarrow> completed \<Rightarrow> string" where
  "run_message command proc =
     ''Comando fall'' @ [CHR 0xF3] @ '': '' @ join '' '' command @ [LF] @
     (if strip (proc_stderr proc) \<noteq> [] then strip (proc_stderr proc) else strip (proc_stdout proc))"

definition VMManager_run :: "env \<Rightarrow> string list \<Rightarrow> world \<Rightarrow> (error + CommandResult) \<times> world" where
  "VMManager_run e command w =
     (let (proc, w') = subprocess_run e command w
      in if returncode proc \<noteq> 0 then (Inl (CommandError (run_message command proc)), w')
         else (Inr \<lparr>stdout = proc_stdout proc, stderr = proc_stderr proc\<rparr>, w'))"

definition nonblank_lines :: "string \<Rightarrow> string list" where
  \<comment> \<open>\<open>[line.strip() for line in text.splitlines() if line.strip()]\<close>.\<close>
  "nonblank_lines text = filter (\<lambda>l. l \<noteq> []) (map strip (splitlines text))"






definition delete_vm_try :: "env \<Rightarrow> string \<Rightarrow> world \<Rightarrow> (error + unit) \<times> world" where
  \<comment> \<open>the body of the \<open>try\<close> of \<open>delete_vm\<close>.\<close>
  "delete_vm_try e name w =
     (case VMManager_run e [''virsh'', ''domstate'', name] w of
        (Inl err, w') \<Rightarrow> (Inl err, w')
      | (Inr r, w') \<Rightarrow>
          (let state = lower (strip (stdout r))
           in if str_in ''running'' state
              then (case VMManager_run e [''virsh'', ''destroy'', name] w' of
                      (Inl err, w'') \<Rightarrow> (Inl err, w'')
                    | (Inr r', w'') \<Rightarrow> (Inr (), w''))
              else (Inr (), w')))"

definition undefine_cmd :: "string \<Rightarrow> bool \<Rightarrow> string list" where
  \<comment> \<open>the list \<open>cmd\<close> of \<open>delete_vm\<close>, after the \<open>append\<close>.\<close>
  "undefine_cmd name remove_storage =
     (let cmd = [''virsh'', ''undefine'', name, ''--nvram'']
      in if remove_storage then cmd @ [''--remove-all-storage''] else cmd)"

definition delete_vm :: "env \<Rightarrow> string \<Rightarrow> bool \<Rightarrow> world \<Rightarrow> (error + unit) \<times> world" where
  \<comment> \<open>\<open>except CommandError: pass\<close> lets any other exception through.\<close>
  "delete_vm e name remove_storage w =
     (case delete_vm_try e name w of
        (Inl (OtherError m), w') \<Rightarrow> (Inl (OtherError m), w')
      | (r, w') \<Rightarrow>
          (case VMManager_run e (undefine_cmd name remove_storage) w' of
             (Inl err, w'') \<Rightarrow> (Inl err, w'')
           | (Inr r', w'') \<Rightarrow> (Inr (), w'')))"





definition issues_of :: "completed \<Rightarrow> string list" where
  \<comment> \<open>the list that \<open>validate_vm_config\<close> returns for a nonzero exit status.\<close>
  "issues_of proc = nonblank_lines (proc_stderr proc @ [LF] @ proc_stdout proc)"

definition validate_vm_config :: "env \<Rightarrow> string \<Rightarrow> world \<Rightarrow> (error + string list) \<times> world" where
  "validate_vm_config e name w =
     (let tmpdir = mkdtemp e (fs w);
          w0 = w\<lparr>fs := mkdir_parents tmpdir (fs w)\<rparr>;
          xml_path = path_join tmpdir (name @ ''.xml'')
      in case VMManager_run e [''virsh'', ''dumpxml'', name] w0 of
           (Inl err, w1) \<Rightarrow> (Inl err, w1\<lparr>fs := rmtree tmpdir (fs w1)\<rparr>)
         | (Inr r, w1) \<Rightarrow>
             (let w2 = w1\<lparr>fs := write_text xml_path (stdout r) (fs w1)\<rparr>;
                  (proc, w3) = subprocess_run e [''virsh'', ''domxml-validate'', xml_path] w2;
                  w4 = w3\<lparr>fs := rmtree tmpdir (fs w3)\<rparr>
              in if returncode proc = 0 then (Inr [], w4) else (Inr (issues_of proc), w4)))"

section \<open>textwrap.dedent\<close>

fun split_acc :: "char \<Rightarrow> string \<Rightarrow> string \<Rightarrow> string list" where
  "split_acc sep acc [] = [rev acc]"
| "split_acc sep acc (c # cs) =
     (if c = sep then rev acc # split_acc sep [] cs else split_acc sep (c # acc) cs)"

definition split_char :: "string \<Rightarrow> char \<Rightarrow> string list" where
  \<comment> \<open>\<open>s.split(sep)\<close> for a separator of one character.\<close>
  "split_char s sep = split_acc sep [] s"

definition blank :: "char \<Rightarrow> bool" where
  \<comment> \<open>the class \<open>[ \t]\<close> of the regular expressions of \<open>textwrap\<close>.\<close>
  "blank c = (c = CHR '' '' \<or> c = CHR 0x09)"

definition whitespace_only :: "string \<Rightarrow> string" where
  \<comment> \<open>\<open>_whitespace_only_re.sub('', text)\<close> on one line.\<close>
  "whitespace_only l = (if l \<noteq> [] \<and> list_all blank l then [] else l)"

fun common_prefix :: "string \<Rightarrow> string \<Rightarrow> string" where
  "common_prefix (x # xs) (y # ys) = (if x = y then x # common_prefix xs ys else [])"
| "common_prefix xs ys = []"

definition next_margin :: "string option \<Rightarrow> string \<Rightarrow> string option" where
  \<comment> \<open>one round of the loop over \<open>indents\<close>.\<close>
  "next_margin margin indent =
     (case margin of
        None \<Rightarrow> Some indent
      | Some m \<Rightarrow>
          if startswith indent m then Some m
          else if startswith m indent then Some indent
          else Some (common_prefix m indent))"

definition dedent :: "string \<Rightarrow> string" where
  \<comment> \<open>\<open>textwrap.dedent\<close>, line by line: the lines are what stands between two \<open>LF\<close>.\<close>
  "dedent text =
     (let ls = map whitespace_only (split_char text LF);
          indents = map (takeWhile blank) (filter (\<lambda>l. l \<noteq> []) ls);
          margin = fold (\<lambda>indent m. next_margin m indent) indents None
      in case margin of
           None \<Rightarrow> join [LF] ls
         | Some m \<Rightarrow>
             if m = [] then join [LF] ls
             else join [LF] (map (\<lambda>l. if startswith l m then drop (length m) l else l) ls))"

section \<open>The converters\<close>











section \<open>add_network_compat\<close>

definition hosts_template :: "string \<Rightarrow> string \<Rightarrow> string \<Rightarrow> string" where
  \<comment> \<open>the f-string of the \<open>debian\<close> branch, before \<open>dedent\<close>.\<close>
  "hosts_template mode legacy_name interface_name =
     [LF] @ ''                # vm_manager compat ('' @ mode @ '')'' @ [LF] @
     ''                # Compatibilidad OVA/QCOW2: alias '' @ legacy_name @ '' -> '' @
     interface_name @ [LF] @ ''                127.0.1.1 '' @ legacy_name @ [LF] @
     ''                127.0.1.1 '' @ interface_name @ [LF] @ ''                ''"

definition netplan_template :: "string \<Rightarrow> string \<Rightarrow> string \<Rightarrow> string" where
  \<comment> \<open>the f-string of the netplan document, before \<open>dedent\<close>.\<close>
  "netplan_template interface_name interface_yaml legacy_name =
     [LF] @ ''            network:'' @ [LF] @ ''              version: 2'' @ [LF] @
     ''              renderer: networkd'' @ [LF] @ ''              ethernets:'' @ [LF] @
     ''                '' @ interface_name @ '':'' @ [LF] @ ''                  '' @
     interface_yaml @ [LF] @ ''                '' @ legacy_name @ '':'' @ [LF] @
     ''                  dhcp4: true'' @ [LF] @ ''                  optional: true'' @ [LF] @
     ''            ''"

definition hosts_snippet :: "string \<Rightarrow> int \<Rightarrow> string" where
  "hosts_snippet mode index =
     strip (dedent (hosts_template mode (''enp0'' @ str_int index) (''ens'' @ str_int index))) @ [LF]"

definition falsy :: "string option \<Rightarrow> bool" where
  \<comment> \<open>\<open>not x\<close> for \<open>x: str | None\<close>.\<close>
  "falsy x = (case x of None \<Rightarrow> True | Some s \<Rightarrow> s = [])"

definition nameservers_yaml :: "string option \<Rightarrow> string" where
  "nameservers_yaml dns =
     (let dns_list = filter (\<lambda>x. x \<noteq> [])
                       (map strip (split_char (case dns of None \<Rightarrow> [] | Some d \<Rightarrow> d) (CHR '','')))
      in if dns_list \<noteq> []
         then [LF] @ ''      nameservers:'' @ [LF] @ ''        addresses: ['' @ join '', '' dns_list @ '']''
         else [])"

definition interface_yaml_of :: "string \<Rightarrow> string option \<Rightarrow> string option \<Rightarrow> string \<Rightarrow> error + string" where
  \<comment> \<open>the \<open>if mode == "dhcp"\<close> of the netplan branch.\<close>
  "interface_yaml_of mode ip_cidr gateway ns =
     (if mode = ''dhcp'' then Inr ''dhcp4: true''
      else if falsy ip_cidr \<or> falsy gateway
           then Inl (CommandError ''Para modo static debes indicar --ip-cidr y --gateway'')
           else Inr (''dhcp4: false'' @ [LF] @ ''      addresses: ['' @ the ip_cidr @ '']'' @ [LF] @
                     ''      routes:'' @ [LF] @ ''        - to: default'' @ [LF] @
                     ''          via: '' @ the gateway @ ns))"

definition add_network_compat :: "env \<Rightarrow> string \<Rightarrow> string \<Rightarrow> int \<Rightarrow> string option \<Rightarrow>
    string option \<Rightarrow> string option \<Rightarrow> string \<Rightarrow> string \<Rightarrow> world \<Rightarrow> (error + string) \<times> world" where
  "add_network_compat e distro mode index ip_cidr gateway dns hosts_path netplan_dir w =
     (let interface_name = ''ens'' @ str_int index;
          legacy_name = ''enp0'' @ str_int index
      in if distro = ''debian''
         then (let snippet = hosts_snippet mode index
               in if path_exists (fs w) hosts_path
                  then (case read_text (fs w) hosts_path of
                          Inl err \<Rightarrow> (Inl err, w)
                        | Inr text \<Rightarrow>
                            if str_in snippet text then (Inr hosts_path, w)
                            else (Inr hosts_path,
                                  store_set e ''last_hosts_update'' hosts_path
                                    (w\<lparr>fs := append_text hosts_path ([LF] @ snippet) (fs w)\<rparr>)))
                  else (Inr hosts_path,
                        store_set e ''last_hosts_update'' hosts_path
                          (w\<lparr>fs := append_text hosts_path ([LF] @ snippet) (fs w)\<rparr>)))
         else (let random_name = ''99-vmcompat-'' @ token_hex3 e (fs w) @ ''.yaml'';
                   out = path_join netplan_dir random_name;
                   w1 = w\<lparr>fs := mkdir_parents netplan_dir (fs w)\<rparr>;
                   ns = nameservers_yaml dns
               in case interface_yaml_of mode ip_cidr gateway ns of
                    Inl err \<Rightarrow> (Inl err, w1)
                  | Inr interface_yaml \<Rightarrow>
                      (let content = strip (dedent (netplan_template interface_name interface_yaml
                                                     legacy_name)) @ [LF];
                           w2 = w1\<lparr>fs := write_text out content (fs w1)\<rparr>
                       in (Inr out, store_set e ''last_netplan_file'' out w2))))"

section \<open>The command line\<close>







section \<open>Hosts used to run the program on examples\<close>

definition host :: "tool \<Rightarrow> env" where
  "host t =
     \<lparr>tool = t, app_dir = ''/root/.local/share/vm_manager'', mkdtemp = (\<lambda>f. ''/tmp/tmpvmm''),
      resolve = (\<lambda>f p. p), clock = (\<lambda>n. 100 + n), json_loads = (\<lambda>s. None),
      int_of_str = (\<lambda>s. None), untar = (\<lambda>s. None), mktar = concat \<circ> map (\<lambda>(n, c). str_nat (length n) @ '':'' @ n @ str_nat (length c) @ '':'' @ c),
      uuid4 = (\<lambda>f. ''0b6c0d5e-5a57-4c1c-9d53-2f6f1f0a7e11''), token_hex3 = (\<lambda>f. ''a1b2c3'')\<rparr>"

definition world0 :: world where
  "world0 = \<lparr>fs = \<lparr>files = [], dirs = [''/'', ''/tmp'', ''/etc'']\<rparr>, rows = [], trace = [],
             ticks = 0, printed = []\<rparr>"

definition answer :: "int \<Rightarrow> string \<Rightarrow> string \<Rightarrow> completed" where
  "answer rc out err = \<lparr>returncode = rc, proc_stdout = out, proc_stderr = err\<rparr>"

definition only_undefine :: tool where
  \<comment> \<open>every command fails but \<open>virsh undefine\<close>.\<close>
  "only_undefine tr f c =
     (answer (if take 2 c = [''virsh'', ''undefine''] then 0 else 1) [] ''error: failed to get domain'', f)"

definition silent_validator :: tool where
  \<comment> \<open>\<open>virsh domxml-validate\<close> exits with status 1 and prints nothing.\<close>
  "silent_validator tr f c =
     (if take 2 c = [''virsh'', ''domxml-validate''] then answer 1 [] [] else answer 0 ''<domain/>'' [], f)"

definition failing_validator :: tool where
  \<comment> \<open>\<open>virsh domxml-validate\<close> exits with status 1 and reports on both streams.\<close>
  "failing_validator tr f c =
     (if take 2 c = [''virsh'', ''domxml-validate'']
      then answer 1 ''note: 1 error'' (''error: XML invalid'' @ [LF] @ [LF] @ ''  Extra element  '' @ [LF])
      else answer 0 ''<domain/>'' [], f)"


definition plain_type_virsh :: tool where
  \<comment> \<open>a configuration whose \<open>type\<close> element has no \<open>arch\<close> attribute.\<close>
  "plain_type_virsh tr f c =
     (if take 2 c = [''virsh'', ''dominfo''] then answer 0 (''Id: 1'' @ [LF] @ ''OS Type: hvm'' @ [LF]) []
      else answer 0 (''<domain>'' @ [LF] @ ''  <os>'' @ [LF] @ ''    <type>hvm</type>'' @ [LF] @
                     ''  </os>'' @ [LF] @ ''</domain>'' @ [LF]) [], f)"







section \<open>Properties of the PathStore\<close>


lemma get_upsert_other: "k' \<noteq> k \<Longrightarrow> PathStore_get k' (upsert k v t tbl) = PathStore_get k' tbl"
  by (induction tbl) auto













section \<open>Properties of delete_vm\<close>

lemma run_trace: "trace (snd (VMManager_run e c w)) = trace w @ [c]"
  by (auto simp: VMManager_run_def subprocess_run_def split: prod.splits)

lemma run_result:
  "fst (VMManager_run e c w) =
     (let p = fst (tool e (trace w) (fs w) c)
      in if returncode p = 0 then Inr \<lparr>stdout = proc_stdout p, stderr = proc_stderr p\<rparr>
         else Inl (CommandError (run_message c p)))"
  by (auto simp: VMManager_run_def subprocess_run_def Let_def split: prod.splits)

lemma run_only_CommandError: "fst (VMManager_run e c w) \<noteq> Inl (OtherError m)"
  by (simp add: run_result Let_def)

lemma try_trace:
  "trace (snd (delete_vm_try e name w)) = trace w @ [[''virsh'', ''domstate'', name]]
   \<or> trace (snd (delete_vm_try e name w)) =
       trace w @ [[''virsh'', ''domstate'', name], [''virsh'', ''destroy'', name]]"
proof -
  obtain r1 w1 where a: "VMManager_run e [''virsh'', ''domstate'', name] w = (r1, w1)"
    by (cases "VMManager_run e [''virsh'', ''domstate'', name] w")
  have t1: "trace w1 = trace w @ [[''virsh'', ''domstate'', name]]"
    using run_trace[of e "[''virsh'', ''domstate'', name]" w] a by simp
  obtain r2 w2 where b: "VMManager_run e [''virsh'', ''destroy'', name] w1 = (r2, w2)"
    by (cases "VMManager_run e [''virsh'', ''destroy'', name] w1")
  have t2: "trace w2 = trace w1 @ [[''virsh'', ''destroy'', name]]"
    using run_trace[of e "[''virsh'', ''destroy'', name]" w1] b by simp
  show ?thesis
    using a b t1 t2 by (auto simp: delete_vm_try_def Let_def split: sum.splits)
qed

lemma try_only_CommandError: "fst (delete_vm_try e name w) \<noteq> Inl (OtherError m)"
proof -
  obtain r1 w1 where a: "VMManager_run e [''virsh'', ''domstate'', name] w = (r1, w1)"
    by (cases "VMManager_run e [''virsh'', ''domstate'', name] w")
  obtain r2 w2 where b: "VMManager_run e [''virsh'', ''destroy'', name] w1 = (r2, w2)"
    by (cases "VMManager_run e [''virsh'', ''destroy'', name] w1")
  have "r1 \<noteq> Inl (OtherError m)" using run_only_CommandError[of e _ w m] a by (metis fst_conv)
  moreover have "r2 \<noteq> Inl (OtherError m)" using run_only_CommandError[of e _ w1 m] b by (metis fst_conv)
  ultimately show ?thesis
    using a b by (auto simp: delete_vm_try_def Let_def split: sum.splits)
qed

lemma delete_vm_eq:
  "delete_vm e name rs w =
     (let w1 = snd (delete_vm_try e name w);
          (r, w2) = VMManager_run e (undefine_cmd name rs) w1
      in (case r of Inl err \<Rightarrow> Inl err | Inr x \<Rightarrow> Inr (), w2))"
proof -
  obtain r1 w1 where a: "delete_vm_try e name w = (r1, w1)" by (cases "delete_vm_try e name w")
  have n: "\<And>m. r1 \<noteq> Inl (OtherError m)" using try_only_CommandError[of e name w] a by simp
  show ?thesis
    using a n
    by (cases r1) (auto simp: delete_vm_def Let_def split: sum.splits error.splits prod.splits)
qed

text \<open>
  C5.  Whatever the external programs answer, the last command \<open>delete_vm\<close> issues is
  \<open>virsh undefine name --nvram\<close>, followed by \<open>--remove-all-storage\<close> exactly when
  \<open>remove_storage\<close> is set.  It is issued after the state query alone or after the state
  query and the stop command, whether these failed or not, and the call raises exactly when
  the undefine process exits with a nonzero status, with the \<open>CommandError\<close> of that process.
\<close>

theorem delete_vm_undefine:
  "\<exists>f. (let (r, w') = delete_vm e name remove_storage w;
             cmd = [''virsh'', ''undefine'', name, ''--nvram''] @
                   (if remove_storage then [''--remove-all-storage''] else []);
             p = fst (tool e (butlast (trace w')) f cmd)
         in trace w' \<noteq> [] \<and> last (trace w') = cmd
            \<and> ((''--remove-all-storage'' \<in> set (drop 3 (last (trace w')))) = remove_storage)
            \<and> ''--nvram'' \<in> set (last (trace w'))
            \<and> (butlast (trace w') = trace w @ [[''virsh'', ''domstate'', name]]
                \<or> butlast (trace w') =
                   trace w @ [[''virsh'', ''domstate'', name], [''virsh'', ''destroy'', name]])
            \<and> r = (if returncode p = 0 then Inr () else Inl (CommandError (run_message cmd p))))"
proof -
  define w1 where "w1 = snd (delete_vm_try e name w)"
  define cmd where "cmd = undefine_cmd name remove_storage"
  obtain r w2 where run: "VMManager_run e cmd w1 = (r, w2)" by (cases "VMManager_run e cmd w1")
  have tr: "trace w2 = trace w1 @ [cmd]" using run_trace[of e cmd w1] run by simp
  have res: "r = (let p = fst (tool e (trace w1) (fs w1) cmd)
      in if returncode p = 0 then Inr \<lparr>stdout = proc_stdout p, stderr = proc_stderr p\<rparr>
         else Inl (CommandError (run_message cmd p)))"
    using run_result[of e cmd w1] run by simp
  have d: "delete_vm e name remove_storage w = (case r of Inl err \<Rightarrow> Inl err | Inr x \<Rightarrow> Inr (), w2)"
    using run by (simp add: delete_vm_eq w1_def cmd_def)
  have c: "cmd = [''virsh'', ''undefine'', name, ''--nvram''] @
                   (if remove_storage then [''--remove-all-storage''] else [])"
    by (simp add: cmd_def undefine_cmd_def)
  have t1: "trace w1 = trace w @ [[''virsh'', ''domstate'', name]]
      \<or> trace w1 = trace w @ [[''virsh'', ''domstate'', name], [''virsh'', ''destroy'', name]]"
    using try_trace[of e name w] by (simp add: w1_def)
  have flag: "(''--remove-all-storage'' \<in> set (drop 3 cmd)) = remove_storage"
    by (simp add: c)
  have nv: "''--nvram'' \<in> set cmd" by (simp add: c)
  show ?thesis
    apply (rule exI[of _ "fs w1"])
    unfolding d c[symmetric] Let_def
    using tr t1 flag nv res by (auto simp: Let_def)
qed

theorem delete_vm_undefine_witness:
  "fst (delete_vm (host only_undefine) ''vm1'' True world0) = Inr ()
   \<and> trace (snd (delete_vm (host only_undefine) ''vm1'' True world0)) =
      [[''virsh'', ''domstate'', ''vm1''],
       [''virsh'', ''undefine'', ''vm1'', ''--nvram'', ''--remove-all-storage'']]"
proof -
  have a: "fst (delete_vm (host only_undefine) ''vm1'' True world0) = Inr ()"
    by code_simp
  have b: "trace (snd (delete_vm (host only_undefine) ''vm1'' True world0)) =
      [[''virsh'', ''domstate'', ''vm1''],
       [''virsh'', ''undefine'', ''vm1'', ''--nvram'', ''--remove-all-storage'']]"
    by code_simp
  show ?thesis using a b delete_vm_undefine [of "host only_undefine" "''vm1''" True world0] by blast
qed

section \<open>Properties of validate_vm_config\<close>

lemma strip_Nil: "strip [] = []" by (simp add: strip_def)

lemma linebreak_LF: "is_linebreak LF" by (simp add: is_linebreak_def LF_def)
lemma linebreak_CR: "is_linebreak CR" by (simp add: is_linebreak_def CR_def)
lemma LF_not_CR: "LF \<noteq> CR" by (simp add: LF_def CR_def)

lemma splitlines_acc_LF:
  "filter (\<lambda>l. l \<noteq> []) (map strip (splitlines_acc acc (LF # b))) =
   filter (\<lambda>l. l \<noteq> []) (map strip (splitlines_acc acc [])) @
   filter (\<lambda>l. l \<noteq> []) (map strip (splitlines_acc [] b))"
  by (cases b) (auto simp: linebreak_LF LF_not_CR strip_Nil)

lemma splitlines_acc_append:
  "filter (\<lambda>l. l \<noteq> []) (map strip (splitlines_acc acc (a @ LF # b))) =
   filter (\<lambda>l. l \<noteq> []) (map strip (splitlines_acc acc a)) @
   filter (\<lambda>l. l \<noteq> []) (map strip (splitlines_acc [] b))"
proof (induction acc a rule: splitlines_acc.induct)
  case (1 acc)
  show ?case using splitlines_acc_LF[of acc b] by simp
next
  case (2 acc c)
  show ?case
  proof (cases "c = CR")
    case True
    then show ?thesis by (simp add: linebreak_CR)
  next
    case False
    show ?thesis
    proof (cases "is_linebreak c")
      case True
      then show ?thesis using False splitlines_acc_LF[of "[]" b] by (simp add: strip_Nil)
    next
      case False
      then show ?thesis using \<open>c \<noteq> CR\<close> splitlines_acc_LF[of "c # acc" b] by simp
    qed
  qed
next
  case (3 acc c d cs)
  then show ?case by simp
qed

lemma nonblank_lines_append:
  "nonblank_lines (a @ [LF] @ b) = nonblank_lines a @ nonblank_lines b"
  using splitlines_acc_append[of "[]" a b] by (simp add: nonblank_lines_def splitlines_def)

lemma subprocess_run_trace: "trace (snd (subprocess_run e c w)) = trace w @ [c]"
  by (auto simp: subprocess_run_def split: prod.splits)

lemma subprocess_run_proc: "fst (subprocess_run e c w) = fst (tool e (trace w) (fs w) c)"
  by (auto simp: subprocess_run_def split: prod.splits)

text \<open>
  C4, as the code has it.  When \<open>virsh dumpxml\<close> has succeeded, \<open>validate_vm_config\<close> runs
  the validator on the temporary file and does not raise: for exit status 0 it returns the
  empty list, for any other status the non-blank lines of standard error followed by those
  of standard output, each stripped of the white space around it and in their order.  The
  result is therefore empty exactly when the status is 0 or the validator printed no
  non-blank line.
\<close>

theorem validate_vm_config_issues:
  assumes "fst (VMManager_run e [''virsh'', ''dumpxml'', name]
                 (w\<lparr>fs := mkdir_parents (mkdtemp e (fs w)) (fs w)\<rparr>)) = Inr r"
  shows "\<exists>f. (let (res, w') = validate_vm_config e name w;
                cmd = [''virsh'', ''domxml-validate'', path_join (mkdtemp e (fs w)) (name @ ''.xml'')];
                proc = fst (tool e (trace w @ [[''virsh'', ''dumpxml'', name]]) f cmd);
                issues = nonblank_lines (proc_stderr proc) @ nonblank_lines (proc_stdout proc)
            in trace w' = trace w @ [[''virsh'', ''dumpxml'', name], cmd]
               \<and> res = Inr (if returncode proc = 0 then [] else issues)
               \<and> ((res = Inr []) = (returncode proc = 0 \<or> issues = [])))"
proof -
  define w0 where "w0 = w\<lparr>fs := mkdir_parents (mkdtemp e (fs w)) (fs w)\<rparr>"
  define xml_path where "xml_path = path_join (mkdtemp e (fs w)) (name @ ''.xml'')"
  obtain r1 w1 where run: "VMManager_run e [''virsh'', ''dumpxml'', name] w0 = (r1, w1)"
    by (cases "VMManager_run e [''virsh'', ''dumpxml'', name] w0")
  have r1: "r1 = Inr r" using assms run by (simp add: w0_def)
  have t1: "trace w1 = trace w @ [[''virsh'', ''dumpxml'', name]]"
    using run_trace[of e "[''virsh'', ''dumpxml'', name]" w0] run by (simp add: w0_def)
  define w2 where "w2 = w1\<lparr>fs := write_text xml_path (stdout r) (fs w1)\<rparr>"
  obtain proc w3 where sub: "subprocess_run e [''virsh'', ''domxml-validate'', xml_path] w2 = (proc, w3)"
    by (cases "subprocess_run e [''virsh'', ''domxml-validate'', xml_path] w2")
  have t3: "trace w3 = trace w @ [[''virsh'', ''dumpxml'', name], [''virsh'', ''domxml-validate'', xml_path]]"
    using subprocess_run_trace[of e "[''virsh'', ''domxml-validate'', xml_path]" w2] sub t1
    by (simp add: w2_def)
  have p: "proc = fst (tool e (trace w @ [[''virsh'', ''dumpxml'', name]]) (fs w2)
                    [''virsh'', ''domxml-validate'', xml_path])"
    using subprocess_run_proc[of e "[''virsh'', ''domxml-validate'', xml_path]" w2] sub t1
    by (simp add: w2_def)
  have v: "validate_vm_config e name w =
      (if returncode proc = 0 then (Inr [], w3\<lparr>fs := rmtree (mkdtemp e (fs w)) (fs w3)\<rparr>)
       else (Inr (issues_of proc), w3\<lparr>fs := rmtree (mkdtemp e (fs w)) (fs w3)\<rparr>))"
    using run r1 sub
    by (simp add: validate_vm_config_def Let_def w0_def[symmetric] xml_path_def[symmetric] w2_def[symmetric])
  have i: "issues_of proc = nonblank_lines (proc_stderr proc) @ nonblank_lines (proc_stdout proc)"
    using nonblank_lines_append[of "proc_stderr proc" "proc_stdout proc"] by (simp add: issues_of_def)
  show ?thesis
    apply (rule exI[of _ "fs w2"])
    unfolding xml_path_def[symmetric] p[symmetric] Let_def v i
    using t3 by auto
qed

theorem validate_vm_config_issues_witness:
  "fst (VMManager_run (host failing_validator) [''virsh'', ''dumpxml'', ''vm1'']
         (world0\<lparr>fs := mkdir_parents (mkdtemp (host failing_validator) (fs world0)) (fs world0)\<rparr>))
     = Inr \<lparr>stdout = ''<domain/>'', stderr = []\<rparr>
   \<and> fst (validate_vm_config (host failing_validator) ''vm1'' world0)
     = Inr [''error: XML invalid'', ''Extra element'', ''note: 1 error'']"
proof -
  have h: "fst (VMManager_run (host failing_validator) [''virsh'', ''dumpxml'', ''vm1'']
         (world0\<lparr>fs := mkdir_parents (mkdtemp (host failing_validator) (fs world0)) (fs world0)\<rparr>))
     = Inr \<lparr>stdout = ''<domain/>'', stderr = []\<rparr>"
    by code_simp
  have c: "fst (validate_vm_config (host failing_validator) ''vm1'' world0)
     = Inr [''error: XML invalid'', ''Extra element'', ''note: 1 error'']"
    by code_simp
  show ?thesis using h c validate_vm_config_issues [OF h] by blast
qed

text \<open>
  A validator that exits with status 1 and prints nothing: the result is the empty list
  although the exit status is not 0.
\<close>

theorem validate_vm_config_empty_counterexample:
  "returncode (fst (tool (host silent_validator) [[''virsh'', ''dumpxml'', ''vm1'']] (fs world0)
                     [''virsh'', ''domxml-validate'', ''/tmp/tmpvmm/vm1.xml''])) = 1
   \<and> trace (snd (validate_vm_config (host silent_validator) ''vm1'' world0))
       = [[''virsh'', ''dumpxml'', ''vm1''], [''virsh'', ''domxml-validate'', ''/tmp/tmpvmm/vm1.xml'']]
   \<and> fst (validate_vm_config (host silent_validator) ''vm1'' world0) = Inr []"
  by code_simp

section \<open>Properties of list_vms and os_details\<close>

















section \<open>Properties of the command line\<close>









section \<open>Properties of add_network_compat\<close>

lemma set_fold_insert: "set (fold List.insert xs ys) = set xs \<union> set ys"
  by (induction xs arbitrary: ys) auto

lemma mkdir_parents_dirs: "set (dirs (mkdir_parents p f)) = insert p (set (parents p)) \<union> set (dirs f)"
  by (simp add: mkdir_parents_def set_fold_insert)

lemma mkdir_parents_files: "files (mkdir_parents p f) = files f"
  by (simp add: mkdir_parents_def)

text \<open>
  C8.  For a distribution other than \<open>debian\<close> and a mode other than \<open>dhcp\<close>, when \<open>ip_cidr\<close>
  or \<open>gateway\<close> is missing (or empty), \<open>add_network_compat\<close> raises the \<open>CommandError\<close> of the
  static mode; no file is written, the store is not updated and no command is issued, but
  the netplan directory has been made before the check and stays.
\<close>

theorem add_network_compat_static_missing:
  assumes "distro \<noteq> ''debian''" and "mode \<noteq> ''dhcp''" and "falsy ip_cidr \<or> falsy gateway"
  shows "(let (r, w') = add_network_compat e distro mode index ip_cidr gateway dns hosts_path netplan_dir w
          in r = Inl (CommandError ''Para modo static debes indicar --ip-cidr y --gateway'')
             \<and> files (fs w') = files (fs w) \<and> rows w' = rows w \<and> ticks w' = ticks w
             \<and> trace w' = trace w
             \<and> netplan_dir \<in> set (dirs (fs w')) \<and> set (dirs (fs w)) \<subseteq> set (dirs (fs w'))
             \<and> w' = w\<lparr>fs := mkdir_parents netplan_dir (fs w)\<rparr>)"
proof -
  have y: "interface_yaml_of mode ip_cidr gateway (nameservers_yaml dns)
      = Inl (CommandError ''Para modo static debes indicar --ip-cidr y --gateway'')"
    using assms(2,3) by (simp add: interface_yaml_of_def)
  have r: "add_network_compat e distro mode index ip_cidr gateway dns hosts_path netplan_dir w
      = (Inl (CommandError ''Para modo static debes indicar --ip-cidr y --gateway''),
         w\<lparr>fs := mkdir_parents netplan_dir (fs w)\<rparr>)"
    using assms(1) y by (simp add: add_network_compat_def Let_def)
  show ?thesis
    unfolding r by (simp add: mkdir_parents_dirs mkdir_parents_files subset_iff)
qed

theorem add_network_compat_static_missing_witness:
  "''ubuntu'' \<noteq> ''debian'' \<and> ''static'' \<noteq> ''dhcp'' \<and> falsy None
   \<and> fst (add_network_compat (host only_undefine) ''ubuntu'' ''static'' 3 (Some ''192.168.122.50/24'') None
            (Some ''8.8.8.8'') ''/etc/hosts'' ''/etc/netplan'' world0)
       = Inl (CommandError ''Para modo static debes indicar --ip-cidr y --gateway'')
   \<and> files (fs (snd (add_network_compat (host only_undefine) ''ubuntu'' ''static'' 3
            (Some ''192.168.122.50/24'') None (Some ''8.8.8.8'') ''/etc/hosts'' ''/etc/netplan'' world0))) = []
   \<and> dirs (fs (snd (add_network_compat (host only_undefine) ''ubuntu'' ''static'' 3
            (Some ''192.168.122.50/24'') None (Some ''8.8.8.8'') ''/etc/hosts'' ''/etc/netplan'' world0)))
       = [''/etc/netplan'', ''/'', ''/tmp'', ''/etc'']"
proof -
  have h1: "''ubuntu'' \<noteq> ''debian''" by simp
  have h2: "''static'' \<noteq> ''dhcp''" by simp
  have h3: "falsy (Some ''192.168.122.50/24'') \<or> falsy None" by (simp add: falsy_def)
  have d: "dirs (mkdir_parents ''/etc/netplan'' (fs world0)) = [''/etc/netplan'', ''/'', ''/tmp'', ''/etc'']"
    by code_simp
  have f: "files (fs world0) = []" by code_simp
  show ?thesis
    using add_network_compat_static_missing [OF h1 h2 h3, of "host only_undefine" 3 "Some ''8.8.8.8''"
        "''/etc/hosts''" "''/etc/netplan''" world0] d f
    by (auto simp: falsy_def split: prod.splits)
qed

subsection \<open>The netplan document in DHCP mode\<close>

lemma isdigit_char_of: "m < 10 \<Longrightarrow> isdigit (char_of (48 + (m::nat)))"
proof -
  assume "m < 10"
  then have "(48 + m) mod 256 = 48 + m" by simp
  then show ?thesis using \<open>m < 10\<close> by (simp add: isdigit_def)
qed

lemma digits_acc_isdigit:
  "list_all isdigit acc \<Longrightarrow> list_all isdigit (digits_acc k n acc)"
proof (induction k arbitrary: n acc)
  case 0 then show ?case by simp
next
  case (Suc k)
  have "n mod 10 < 10" by simp
  then have "isdigit (char_of (48 + n mod 10))" by (rule isdigit_char_of)
  then show ?case using Suc isdigit_char_of[of n] by simp
qed

lemma digits_acc_nonempty: "acc \<noteq> [] \<Longrightarrow> digits_acc k n acc \<noteq> []"
  by (induction k arbitrary: n acc) auto

lemma str_nat_isdigit: "list_all isdigit (str_nat n)"
  unfolding str_nat_def by (rule digits_acc_isdigit) simp

lemma str_nat_nonempty: "str_nat n \<noteq> []"
  by (simp add: str_nat_def digits_acc_nonempty)

lemma str_int_chars: "list_all (\<lambda>c. isdigit c \<or> c = CHR ''-'') (str_int i)"
  using str_nat_isdigit[of "nat i"] str_nat_isdigit[of "nat (- i)"]
  by (auto simp: str_int_def list_all_iff)

lemma str_int_nonempty: "str_int i \<noteq> []"
  by (simp add: str_int_def str_nat_nonempty)

lemma str_int_no: "c \<noteq> CHR ''-'' \<Longrightarrow> \<not> isdigit c \<Longrightarrow> c \<notin> set (str_int i)"
  using str_int_chars[of i] by (auto simp: list_all_iff)

lemma split_acc_skip:
  "sep \<notin> set X \<Longrightarrow> split_acc sep acc (X @ ys) = split_acc sep (rev X @ acc) ys"
  by (induction X arbitrary: acc) auto

lemma dedent_dhcp:
  assumes "LF \<notin> set X"
  shows "strip (dedent (netplan_template (''ens'' @ X) ''dhcp4: true'' (''enp0'' @ X))) @ [LF] =
     ''network:'' @ [LF] @ ''  version: 2'' @ [LF] @ ''  renderer: networkd'' @ [LF] @
     ''  ethernets:'' @ [LF] @ ''    ens'' @ X @ '':'' @ [LF] @ ''      dhcp4: true'' @ [LF] @
     ''    enp0'' @ X @ '':'' @ [LF] @ ''      dhcp4: true'' @ [LF] @ ''      optional: true'' @ [LF]"
proof -
  have s: "split_char (netplan_template (''ens'' @ X) ''dhcp4: true'' (''enp0'' @ X)) LF =
     [[], ''            network:'', ''              version: 2'', ''              renderer: networkd'',
      ''              ethernets:'', ''                ens'' @ X @ '':'', ''                  dhcp4: true'',
      ''                enp0'' @ X @ '':'', ''                  dhcp4: true'',
      ''                  optional: true'', ''            '']"
    using assms by (simp add: split_char_def netplan_template_def split_acc_skip LF_def)
  have d: "dedent (netplan_template (''ens'' @ X) ''dhcp4: true'' (''enp0'' @ X)) =
     [LF] @ ''network:'' @ [LF] @ ''  version: 2'' @ [LF] @ ''  renderer: networkd'' @ [LF] @
     ''  ethernets:'' @ [LF] @ ''    ens'' @ X @ '':'' @ [LF] @ ''      dhcp4: true'' @ [LF] @
     ''    enp0'' @ X @ '':'' @ [LF] @ ''      dhcp4: true'' @ [LF] @ ''      optional: true'' @ [LF]"
    unfolding dedent_def s
    by (simp add: whitespace_only_def blank_def next_margin_def Let_def)
  show ?thesis
    unfolding d by (simp add: strip_def isspace_def LF_def)
qed


lemma startswith_stop:
  "x \<notin> set p \<Longrightarrow> startswith (zs @ x # ys) p = startswith zs p"
proof (induction zs p rule: startswith.induct)
  case (1 s) then show ?case by simp
next
  case (2 q qs) then show ?case by simp
next
  case (3 c cs q qs) then show ?case by simp
qed

lemma str_in_skip:
  "set X \<inter> set p = {} \<Longrightarrow> p \<noteq> [] \<Longrightarrow> str_in p (X @ ys) = str_in p ys"
proof (induction X)
  case Nil then show ?case by simp
next
  case (Cons x X)
  have "x \<notin> set p" using Cons.prems by auto
  then have "\<not> startswith (x # X @ ys) p"
    using startswith_stop[of x p "[]" "X @ ys"] Cons.prems(2) by (cases p) auto
  then show ?case using Cons by auto
qed

lemma str_in_Nil: "p \<noteq> [] \<Longrightarrow> \<not> str_in p []" by simp

lemma str_in_across:
  assumes "set X \<inter> set p = {}" "p \<noteq> []" "X \<noteq> []"
  shows "str_in p (xs @ X @ ys) = (str_in p xs \<or> str_in p ys)"
proof (induction xs)
  case Nil
  show ?case using str_in_skip[OF assms(1,2)] assms(2) by simp
next
  case (Cons c cs)
  obtain x X' where X: "X = x # X'" using assms(3) by (cases X) auto
  have "x \<notin> set p" using assms(1) X by auto
  then have "startswith ((c # cs) @ x # X' @ ys) p = startswith (c # cs) p"
    by (rule startswith_stop)
  then show ?case using Cons X by auto
qed

lemma nameservers_disjoint: "set (str_int i) \<inter> set ''nameservers'' = {}"
proof -
  have "\<And>c. c \<in> set ''nameservers'' \<Longrightarrow> c \<notin> set (str_int i)"
    by (rule str_int_no) (auto simp: isdigit_def)
  then show ?thesis by blast
qed

lemma LF_not_str_int: "LF \<notin> set (str_int i)"
  by (rule str_int_no) (auto simp: isdigit_def LF_def)

lemma no_nameservers:
  "\<not> str_in ''nameservers''
     (''network:'' @ [LF] @ ''  version: 2'' @ [LF] @ ''  renderer: networkd'' @ [LF] @
      ''  ethernets:'' @ [LF] @ ''    ens'' @ str_int i @ '':'' @ [LF] @ ''      dhcp4: true'' @ [LF] @
      ''    enp0'' @ str_int i @ '':'' @ [LF] @ ''      dhcp4: true'' @ [LF] @ ''      optional: true'' @ [LF])"
proof -
  define A where "A = ''network:'' @ [LF] @ ''  version: 2'' @ [LF] @ ''  renderer: networkd'' @ [LF] @
      ''  ethernets:'' @ [LF] @ ''    ens''"
  define B where "B = '':'' @ [LF] @ ''      dhcp4: true'' @ [LF] @ ''    enp0''"
  define C where "C = '':'' @ [LF] @ ''      dhcp4: true'' @ [LF] @ ''      optional: true'' @ [LF]"
  have a: "\<not> str_in ''nameservers'' A" unfolding A_def by code_simp
  have b: "\<not> str_in ''nameservers'' B" unfolding B_def by code_simp
  have c: "\<not> str_in ''nameservers'' C" unfolding C_def by code_simp
  have "str_in ''nameservers'' (A @ str_int i @ (B @ str_int i @ C))
      = (str_in ''nameservers'' A \<or> str_in ''nameservers'' (B @ str_int i @ C))"
    by (rule str_in_across[OF nameservers_disjoint _ str_int_nonempty]) simp
  moreover have "str_in ''nameservers'' (B @ str_int i @ C)
      = (str_in ''nameservers'' B \<or> str_in ''nameservers'' C)"
    by (rule str_in_across[OF nameservers_disjoint _ str_int_nonempty]) simp
  ultimately have "\<not> str_in ''nameservers'' (A @ str_int i @ (B @ str_int i @ C))"
    using a b c by simp
  then show ?thesis by (simp add: A_def B_def C_def)
qed

lemma store_set_fs: "fs (store_set e k v w) = fs w" by (simp add: store_set_def)

text \<open>
  C9.  For a distribution other than \<open>debian\<close> in mode \<open>dhcp\<close>, the call succeeds and writes,
  at the path it returns, the document shown below: the interface \<open>ens<index>\<close> with
  \<open>dhcp4: true\<close> and the interface \<open>enp0<index>\<close>.  The document contains no \<open>nameservers\<close>
  section, and the result and the world are the same as for a call without a DNS list.
\<close>

theorem add_network_compat_dhcp_no_nameservers:
  assumes "distro \<noteq> ''debian''"
  shows "(let (r, w') = add_network_compat e distro ''dhcp'' index ip_cidr gateway dns hosts_path netplan_dir w;
              out = path_join netplan_dir (''99-vmcompat-'' @ token_hex3 e (fs w) @ ''.yaml'');
              content = ''network:'' @ [LF] @ ''  version: 2'' @ [LF] @ ''  renderer: networkd'' @ [LF] @
                 ''  ethernets:'' @ [LF] @ ''    ens'' @ str_int index @ '':'' @ [LF] @
                 ''      dhcp4: true'' @ [LF] @ ''    enp0'' @ str_int index @ '':'' @ [LF] @
                 ''      dhcp4: true'' @ [LF] @ ''      optional: true'' @ [LF]
          in r = Inr out
             \<and> map_of (files (fs w')) out = Some content
             \<and> \<not> str_in ''nameservers'' content
             \<and> (r, w') = add_network_compat e distro ''dhcp'' index ip_cidr gateway None hosts_path netplan_dir w)"
proof -
  define content where "content = ''network:'' @ [LF] @ ''  version: 2'' @ [LF] @ ''  renderer: networkd'' @ [LF] @
                 ''  ethernets:'' @ [LF] @ ''    ens'' @ str_int index @ '':'' @ [LF] @
                 ''      dhcp4: true'' @ [LF] @ ''    enp0'' @ str_int index @ '':'' @ [LF] @
                 ''      dhcp4: true'' @ [LF] @ ''      optional: true'' @ [LF]"
  define out where "out = path_join netplan_dir (''99-vmcompat-'' @ token_hex3 e (fs w) @ ''.yaml'')"
  have c: "strip (dedent (netplan_template (''ens'' @ str_int index) ''dhcp4: true'' (''enp0'' @ str_int index))) @ [LF]
      = content"
    unfolding content_def by (rule dedent_dhcp[OF LF_not_str_int])
  have y: "\<And>ns. interface_yaml_of ''dhcp'' ip_cidr gateway ns = Inr ''dhcp4: true''"
    by (simp add: interface_yaml_of_def)
  have r: "\<And>d. add_network_compat e distro ''dhcp'' index ip_cidr gateway d hosts_path netplan_dir w
      = (Inr out, store_set e ''last_netplan_file'' out
                    (w\<lparr>fs := write_text out content (mkdir_parents netplan_dir (fs w))\<rparr>))"
    using assms c y by (simp add: add_network_compat_def Let_def out_def)
  have m: "map_of (files (write_text out content (mkdir_parents netplan_dir (fs w)))) out = Some content"
    by (simp add: write_text_def update_conv')
  have n: "\<not> str_in ''nameservers'' content" unfolding content_def by (rule no_nameservers)
  show ?thesis
    unfolding Let_def out_def[symmetric] content_def[symmetric] r
    using m n by (simp add: store_set_fs)
qed


theorem add_network_compat_dhcp_no_nameservers_witness:
  "''ubuntu'' \<noteq> ''debian''
   \<and> fst (add_network_compat (host only_undefine) ''ubuntu'' ''dhcp'' 3 None None (Some ''8.8.8.8,1.1.1.1'')
            ''/etc/hosts'' ''/etc/netplan'' world0) = Inr ''/etc/netplan/99-vmcompat-a1b2c3.yaml''
   \<and> map_of (files (fs (snd (add_network_compat (host only_undefine) ''ubuntu'' ''dhcp'' 3 None None
            (Some ''8.8.8.8,1.1.1.1'') ''/etc/hosts'' ''/etc/netplan'' world0))))
         ''/etc/netplan/99-vmcompat-a1b2c3.yaml''
       = Some (''network:'' @ [LF] @ ''  version: 2'' @ [LF] @ ''  renderer: networkd'' @ [LF] @
               ''  ethernets:'' @ [LF] @ ''    ens3:'' @ [LF] @ ''      dhcp4: true'' @ [LF] @
               ''    enp03:'' @ [LF] @ ''      dhcp4: true'' @ [LF] @ ''      optional: true'' @ [LF])"
proof -
  have h: "''ubuntu'' \<noteq> ''debian''" by simp
  have r: "fst (add_network_compat (host only_undefine) ''ubuntu'' ''dhcp'' 3 None None (Some ''8.8.8.8,1.1.1.1'')
            ''/etc/hosts'' ''/etc/netplan'' world0) = Inr ''/etc/netplan/99-vmcompat-a1b2c3.yaml''"
    by code_simp
  have m: "map_of (files (fs (snd (add_network_compat (host only_undefine) ''ubuntu'' ''dhcp'' 3 None None
            (Some ''8.8.8.8,1.1.1.1'') ''/etc/hosts'' ''/etc/netplan'' world0))))
         ''/etc/netplan/99-vmcompat-a1b2c3.yaml''
       = Some (''network:'' @ [LF] @ ''  version: 2'' @ [LF] @ ''  renderer: networkd'' @ [LF] @
               ''  ethernets:'' @ [LF] @ ''    ens3:'' @ [LF] @ ''      dhcp4: true'' @ [LF] @
               ''    enp03:'' @ [LF] @ ''      dhcp4: true'' @ [LF] @ ''      optional: true'' @ [LF])"
    by code_simp
  show ?thesis
    using add_network_compat_dhcp_no_nameservers [OF h, of "host only_undefine" 3 None None
        "Some ''8.8.8.8,1.1.1.1''" "''/etc/hosts''" "''/etc/netplan''" world0]
    by (simp only: h r m simp_thms)
qed

subsection \<open>The hosts file\<close>
























section \<open>Properties of ova_to_qcow2\<close>










section \<open>Properties of qcow2_to_ova\<close>
















end
